theory Spec2Isabelle
  imports Complex_Main "HOL-Library.AList"
begin

section \<open>Python values, dictionaries and exceptions\<close>

text \<open>
  The analyser moves JSON-like Python values around: the input mapping, the decoded
  answers of the language model, the dump of a moderation result. A dictionary is an
  association list in insertion order, with string keys.
\<close>

datatype pyval =
    PyNone
  | PyBool bool
  | PyInt int
  | PyFloat real
  | PyStr string
  | PyList "pyval list"
  | PyDict "(string \<times> pyval) list"

type_synonym pydict = "(string \<times> pyval) list"

text \<open>
  Every exception the modelled code can raise is a value. \<open>ProviderError\<close> stands for
  whatever the client of the remote service raises (transport, authentication, rate limit).
\<close>

datatype py_error =
    OutputParserException
  | KeyError "string list"
  | ValueError
  | TypeError
  | AttributeError
  | IndexError
  | ProviderError string

text \<open>\<open>d[k]\<close>\<close>

definition getitem :: "pydict \<Rightarrow> string \<Rightarrow> py_error + pyval" where
  "getitem d k = (case map_of d k of None \<Rightarrow> Inl (KeyError [k]) | Some v \<Rightarrow> Inr v)"

text \<open>\<open>d[k] = v\<close>: an existing key keeps its place, a new key goes to the end.\<close>

definition setitem :: "pydict \<Rightarrow> string \<Rightarrow> pyval \<Rightarrow> pydict" where
  "setitem d k v = AList.update k v d"

text \<open>\<open>d.update(other)\<close> for a dictionary \<open>other\<close>, also \<open>{**d, **other}\<close>.\<close>

definition dict_update :: "pydict \<Rightarrow> pydict \<Rightarrow> pydict" where
  "dict_update d other = fold (\<lambda>(k, v) acc. setitem acc k v) other d"

text \<open>
  \<open>d.update(x)\<close> for the values the analyser passes. A dictionary is merged. A string is
  iterated as a sequence of key/value pairs: the empty string has none, and every element
  of any other string is a one-character string, which is not a pair (ValueError). A
  scalar is not iterable (TypeError). The analyser calls this with the output of a chain,
  which is a decoded object or a string; a non-empty list does not occur there.
\<close>

fun update_with :: "pydict \<Rightarrow> pyval \<Rightarrow> py_error + pydict" where
  "update_with d (PyDict other) = Inr (dict_update d other)"
| "update_with d (PyStr s) = (if s = [] then Inr d else Inl ValueError)"
| "update_with d (PyList xs) = (if xs = [] then Inr d else Inl TypeError)"
| "update_with d v = Inl TypeError"

text \<open>\<open>operator.itemgetter(k)\<close> applied to a value.\<close>

fun itemgetter :: "string \<Rightarrow> pyval \<Rightarrow> py_error + pyval" where
  "itemgetter k (PyDict d) = getitem d k"
| "itemgetter k v = Inl TypeError"

text \<open>\<open>str.lower()\<close> on the characters a HOL string has (ASCII letters are folded).\<close>

definition lower_char :: "char \<Rightarrow> char" where
  "lower_char c =
     (case map_of (zip ''ABCDEFGHIJKLMNOPQRSTUVWXYZ'' ''abcdefghijklmnopqrstuvwxyz'') c of
        Some l \<Rightarrow> l
      | None \<Rightarrow> c)"

definition lower :: "string \<Rightarrow> string" where
  "lower s = map lower_char s"

section \<open>prompts.py: the four prompts and their answer formats\<close>

datatype field_type = TStr | TBool

type_synonym format = "(string \<times> field_type) list"

definition HatespeechDetectionFormat :: format where
  "HatespeechDetectionFormat = [(''explanation'', TStr), (''classification'', TStr)]"

definition HatespeechValidatorFormat :: format where
  "HatespeechValidatorFormat = [(''classification'', TStr), (''explanation'', TStr)]"

definition HatespeechClassifierFormat :: format where
  "HatespeechClassifierFormat =
     [(''classification'', TStr), (''racism'', TBool), (''antisemitism'', TBool),
      (''homophobia'', TBool), (''ableism'', TBool), (''violence'', TBool),
      (''sexism'', TBool), (''other_hate_speech'', TBool), (''explanation'', TStr)]"

definition RightWingRatingFormat :: format where
  "RightWingRatingFormat =
     [(''right_wing_indicator'', TBool), (''rating'', TStr), (''explanation'', TStr)]"

text \<open>
  A \<open>PromptTemplate\<close> with its name and declared input variables. The template text is
  read by the remote model only; no decision of the analyser depends on it.
\<close>

record PromptTemplate =
  name :: string
  input_variables :: "string list"

definition HATESPEECH_DETECTOR_PROMPT :: PromptTemplate where
  "HATESPEECH_DETECTOR_PROMPT = \<lparr>name = ''detector'', input_variables = [''message'']\<rparr>"

definition HATESPEECH_VALIDATOR_PROMPT :: PromptTemplate where
  "HATESPEECH_VALIDATOR_PROMPT =
     \<lparr>name = ''validator'',
      input_variables = [''classification'', ''explanation'', ''message'']\<rparr>"

definition HATESPEECH_CLASSIFICATION_PROMPT :: PromptTemplate where
  "HATESPEECH_CLASSIFICATION_PROMPT =
     \<lparr>name = ''classifier'', input_variables = [''message'']\<rparr>"

definition RIGHT_WING_RATING_PROMPT :: PromptTemplate where
  "RIGHT_WING_RATING_PROMPT =
     \<lparr>name = ''right-wing-rater'', input_variables = [''message'']\<rparr>"

section \<open>The remote services and the observable effects\<close>

text \<open>
  A prompt applied to an input mapping. Invoking a prompt raises KeyError when a declared
  input variable has no value; otherwise the prompt value carries the prompt's name and
  the mapping it was applied to.
\<close>

record prompt_value =
  pv_name :: string
  pv_input :: pydict

definition invoke_prompt :: "PromptTemplate \<Rightarrow> pydict \<Rightarrow> py_error + prompt_value" where
  "invoke_prompt p inp =
     (case filter (\<lambda>v. v \<notin> fst ` set inp) (input_variables p) of
        [] \<Rightarrow> Inr \<lparr>pv_name = name p, pv_input = inp\<rparr>
      | missing \<Rightarrow> Inl (KeyError missing))"

text \<open>
  The chat model is a parameter of the analyser. It has a temperature, and an answer for
  each prompt value; the number is how often the same prompt was invoked before in the
  run, so that a repeated call may be answered differently.
\<close>

record BaseChatModel =
  temperature :: real
  respond :: "nat \<Rightarrow> prompt_value \<Rightarrow> py_error + string"

text \<open>The moderation service: \<open>client.create(input=..., model=...)\<close>.\<close>

record Moderation =
  categories :: "(string \<times> bool) list"
  category_scores :: "(string \<times> real) list"
  flagged :: bool

record ModerationCreateResponse =
  results :: "Moderation list"

type_synonym moderations = "pyval \<Rightarrow> string \<Rightarrow> py_error + ModerationCreateResponse"

definition model_dump :: "Moderation \<Rightarrow> pydict" where
  "model_dump m =
     [(''categories'', PyDict (map (\<lambda>(k, b). (k, PyBool b)) (categories m))),
      (''category_scores'', PyDict (map (\<lambda>(k, x). (k, PyFloat x)) (category_scores m))),
      (''flagged'', PyBool (flagged m))]"

text \<open>
  What a run leaves behind outside its return value: the calls to the chat model, the
  calls to the moderation service, and the warnings logged.
\<close>

record llm_call =
  call_prompt :: prompt_value
  call_temperature :: real

record world =
  llm_calls :: "llm_call list"
  moderation_calls :: "(pyval \<times> string) list"
  warnings :: "string list"

definition world0 :: world where
  "world0 = \<lparr>llm_calls = [], moderation_calls = [], warnings = []\<rparr>"

definition attempts :: "world \<Rightarrow> prompt_value \<Rightarrow> nat" where
  "attempts w pv = length (filter (\<lambda>c. pv_name (call_prompt c) = pv_name pv) (llm_calls w))"

definition llm_invoke ::
  "BaseChatModel \<Rightarrow> prompt_value \<Rightarrow> world \<Rightarrow> (py_error + string) \<times> world" where
  "llm_invoke llm pv w =
     (respond llm (attempts w pv) pv,
      w\<lparr>llm_calls := llm_calls w @ [\<lparr>call_prompt = pv, call_temperature = temperature llm\<rparr>]\<rparr>)"

definition moderations_create ::
  "moderations \<Rightarrow> pyval \<Rightarrow> string \<Rightarrow> world \<Rightarrow> (py_error + ModerationCreateResponse) \<times> world" where
  "moderations_create client text model w =
     (client text model, w\<lparr>moderation_calls := moderation_calls w @ [(text, model)]\<rparr>)"

definition logging_warning :: "string \<Rightarrow> world \<Rightarrow> world" where
  "logging_warning msg w = w\<lparr>warnings := warnings w @ [msg]\<rparr>"

section \<open>Output parsers and the chain prompt | llm | parser\<close>

text \<open>
  \<open>JsonOutputParser\<close> decodes the model's text; the decoder is a parameter that yields a
  JSON object or fails, and failure is OutputParserException. The pydantic format given
  to the parser only produces the format instructions of the prompt: the decoded object
  is not checked against it. \<open>StrOutputParser\<close> returns the text as it is.
\<close>

datatype parser = JsonOutputParser format | StrOutputParser

type_synonym decoder = "string \<Rightarrow> pydict option"

fun parse :: "decoder \<Rightarrow> parser \<Rightarrow> string \<Rightarrow> py_error + pyval" where
  "parse dec (JsonOutputParser fmt) text =
     (case dec text of None \<Rightarrow> Inl OutputParserException | Some d \<Rightarrow> Inr (PyDict d))"
| "parse dec StrOutputParser text = Inr (PyStr text)"

definition chain_invoke ::
  "decoder \<Rightarrow> PromptTemplate \<Rightarrow> BaseChatModel \<Rightarrow> parser \<Rightarrow> pydict \<Rightarrow> world
     \<Rightarrow> (py_error + pyval) \<times> world" where
  "chain_invoke dec prompt llm p inp w =
     (case invoke_prompt prompt inp of
        Inl e \<Rightarrow> (Inl e, w)
      | Inr pv \<Rightarrow>
          (case llm_invoke llm pv w of
             (Inl e, w1) \<Rightarrow> (Inl e, w1)
           | (Inr text, w1) \<Rightarrow> (parse dec p text, w1)))"

section \<open>llm_chains.py\<close>

subsection \<open>OpenAIModerationChain\<close>

text \<open>
  The fields of the chain that its methods read or that the claims are about. The other
  fields (keys, proxy, timeouts) only configure the construction of the client, which is
  a parameter here.
\<close>

record OpenAIModerationChain =
  client :: moderations
  model_name :: string
  error :: bool
  input_key :: string
  output_key :: string

definition new_OpenAIModerationChain :: "moderations \<Rightarrow> OpenAIModerationChain" where
  "new_OpenAIModerationChain cl =
     \<lparr>client = cl, model_name = ''text-moderation-latest'', error = False,
      input_key = ''message'', output_key = ''mod_results''\<rparr>"

text \<open>\<open>OpenAIModerationChain._call\<close>\<close>

definition OpenAIModerationChain_call ::
  "OpenAIModerationChain \<Rightarrow> pydict \<Rightarrow> world \<Rightarrow> (py_error + pydict) \<times> world" where
  "OpenAIModerationChain_call self inputs w =
     (case getitem inputs (input_key self) of
        Inl e \<Rightarrow> (Inl e, w)
      | Inr text \<Rightarrow>
          (case moderations_create (client self) text (model_name self) w of
             (Inl e, w1) \<Rightarrow> (Inl e, w1)
           | (Inr outputs, w1) \<Rightarrow>
               (case results outputs of
                  [] \<Rightarrow> (Inl IndexError, w1)
                | r # _ \<Rightarrow> (Inr [(output_key self, PyDict (model_dump r))], w1))))"

text \<open>
  \<open>Chain.invoke\<close> of the base class, through which a chain runs inside a pipeline: the
  declared input keys must be present (ValueError), and the outputs of \<open>_call\<close> are
  returned merged into the inputs.
\<close>

definition Chain_invoke ::
  "OpenAIModerationChain \<Rightarrow> pydict \<Rightarrow> world \<Rightarrow> (py_error + pyval) \<times> world" where
  "Chain_invoke self inputs w =
     (if input_key self \<notin> fst ` set inputs then (Inl ValueError, w)
      else (case OpenAIModerationChain_call self inputs w of
              (Inl e, w1) \<Rightarrow> (Inl e, w1)
            | (Inr outputs, w1) \<Rightarrow> (Inr (PyDict (dict_update inputs outputs)), w1)))"

subsection \<open>create_public_chat_gpt_chain\<close>

text \<open>
  \<open>ChatOpenAI(model=model, temperature=0.0, **model_kwargs)\<close>: a keyword given twice is
  a TypeError, so \<open>model_kwargs\<close> cannot replace the model or the temperature. The
  service answering for a model name and its further keyword arguments is a parameter.
\<close>

type_synonym chain = "pydict \<Rightarrow> world \<Rightarrow> (py_error + pyval) \<times> world"

definition create_public_chat_gpt_chain ::
  "decoder \<Rightarrow> (string \<Rightarrow> pydict \<Rightarrow> nat \<Rightarrow> prompt_value \<Rightarrow> py_error + string)
     \<Rightarrow> PromptTemplate \<Rightarrow> parser \<Rightarrow> string \<Rightarrow> pydict \<Rightarrow> py_error + chain" where
  "create_public_chat_gpt_chain dec service prompt p model model_kwargs =
     (if ''model'' \<in> fst ` set model_kwargs \<or> ''temperature'' \<in> fst ` set model_kwargs
      then Inl TypeError
      else (let openai_llm = \<lparr>temperature = 0, respond = service model model_kwargs\<rparr>
            in Inr (chain_invoke dec prompt openai_llm p)))"

subsection \<open>get_openai_moderator_results\<close>

definition get_openai_moderator_results ::
  "moderations \<Rightarrow> string \<Rightarrow> string \<Rightarrow> world \<Rightarrow> (py_error + pydict) \<times> world" where
  "get_openai_moderator_results cl input_message model w =
     (case moderations_create cl (PyStr input_message) model w of
        (Inl e, w1) \<Rightarrow> (Inl e, w1)
      | (Inr output, w1) \<Rightarrow>
          (case results output of
             [] \<Rightarrow> (Inl IndexError, w1)
           | r # _ \<Rightarrow> (Inr (model_dump r), w1)))"

subsection \<open>JsonBooleanChecker\<close>

definition true_vals :: "string list" where
  "true_vals = [''true'', ''right'', ''yes'']"

definition false_vals :: "string list" where
  "false_vals = [''false'', ''wrong'', ''no'']"

text \<open>
  One round of the loop of \<open>parse_result\<close>, for the value of one key. A value that is
  neither a bool nor a string has no \<open>lower\<close> method (AttributeError).
\<close>

fun check_val :: "pyval \<Rightarrow> py_error + pyval" where
  "check_val (PyBool b) = Inr (PyBool b)"
| "check_val (PyStr s) =
     (if lower s \<in> set true_vals then Inr (PyBool True)
      else if lower s \<in> set false_vals then Inr (PyBool False)
      else Inr (PyStr s))"
| "check_val v = Inl AttributeError"

fun parse_result :: "pydict \<Rightarrow> py_error + pydict" where
  "parse_result [] = Inr []"
| "parse_result ((key, val) # rest) =
     (case check_val val of
        Inl e \<Rightarrow> Inl e
      | Inr v \<Rightarrow>
          (case parse_result rest of
             Inl e \<Rightarrow> Inl e
           | Inr rest' \<Rightarrow> Inr ((key, v) # rest')))"

section \<open>analyser.py\<close>

definition text_analyser_prompts :: "(PromptTemplate \<times> format) list" where
  "text_analyser_prompts =
     [(HATESPEECH_DETECTOR_PROMPT, HatespeechDetectionFormat),
      (HATESPEECH_VALIDATOR_PROMPT, HatespeechValidatorFormat),
      (HATESPEECH_CLASSIFICATION_PROMPT, HatespeechClassifierFormat),
      (RIGHT_WING_RATING_PROMPT, RightWingRatingFormat)]"

subsection \<open>analyse_text_message_with_llm: the stages in a loop\<close>

text \<open>
  The body of the \<open>try\<close> statement for one prompt: the chain with the JSON parser, and on
  OutputParserException a warning and the same prompt and model with the string parser.
  Any other exception, and any exception of the second chain, leaves the function.
\<close>

definition run_stage ::
  "decoder \<Rightarrow> BaseChatModel \<Rightarrow> PromptTemplate \<times> format \<Rightarrow> pydict \<Rightarrow> world
     \<Rightarrow> (py_error + pyval) \<times> world" where
  "run_stage dec llm pf inp w =
     (case chain_invoke dec (fst pf) llm (JsonOutputParser (snd pf)) inp w of
        (Inl OutputParserException, w1) \<Rightarrow>
          chain_invoke dec (fst pf) llm StrOutputParser inp
            (logging_warning ''Parsing failed - Switching parser to StrOutputParser'' w1)
      | (r, w1) \<Rightarrow> (r, w1))"

text \<open>
  The \<open>for\<close> loop over the prompts, with the input mapping and the results so far. After
  the prompt named \<open>detector\<close> the chain output is merged into the input mapping with
  \<open>input.update\<close>, before the output is stored in the results.
\<close>

fun analyse_loop ::
  "decoder \<Rightarrow> BaseChatModel \<Rightarrow> (PromptTemplate \<times> format) list \<Rightarrow> pydict \<Rightarrow> pydict \<Rightarrow> world
     \<Rightarrow> (py_error + pydict) \<times> world" where
  "analyse_loop dec llm [] inp res w = (Inr res, w)"
| "analyse_loop dec llm (pf # rest) inp res w =
     (case run_stage dec llm pf inp w of
        (Inl e, w1) \<Rightarrow> (Inl e, w1)
      | (Inr chain_output, w1) \<Rightarrow>
          (case (if name (fst pf) = ''detector'' then update_with inp chain_output
                 else Inr inp) of
             Inl e \<Rightarrow> (Inl e, w1)
           | Inr inp' \<Rightarrow>
               analyse_loop dec llm rest inp' (setitem res (name (fst pf)) chain_output) w1))"

definition analyse_text_message_with_llm ::
  "decoder \<Rightarrow> moderations \<Rightarrow> string \<Rightarrow> BaseChatModel \<Rightarrow> world
     \<Rightarrow> (py_error + pydict) \<times> world" where
  "analyse_text_message_with_llm dec cl message llm w =
     (case get_openai_moderator_results cl message ''text-moderation-latest'' w of
        (Inl e, w1) \<Rightarrow> (Inl e, w1)
      | (Inr m, w1) \<Rightarrow>
          analyse_loop dec llm text_analyser_prompts [(''message'', PyStr message)]
            [(''moderator'', PyDict m)] w1)"

subsection \<open>parallel_text_analyser_chains: the stages as one runnable\<close>

text \<open>
  The dictionary \<open>chains\<close>: for each prompt the chain \<open>prompt | llm | parser\<close> with the
  JSON parser, under the prompt's name.
\<close>

definition chains :: "decoder \<Rightarrow> BaseChatModel \<Rightarrow> (string \<times> chain) list" where
  "chains dec llm =
     map (\<lambda>(prompt, parser_object).
            (name prompt, chain_invoke dec prompt llm (JsonOutputParser parser_object)))
       text_analyser_prompts"

definition chains_getitem :: "decoder \<Rightarrow> BaseChatModel \<Rightarrow> string \<Rightarrow> chain" where
  "chains_getitem dec llm k =
     (case map_of (chains dec llm) k of
        Some c \<Rightarrow> c
      | None \<Rightarrow> (\<lambda>inp w. (Inl (KeyError [k]), w)))"

text \<open>
  A mapping of runnables (\<open>RunnableParallel\<close>, also what a dictionary in a pipe becomes):
  every step is applied to the same input and all of them run; the values are then
  collected under their keys in the order of the keys, so the first exception in that
  order is the one raised.
\<close>

fun collect :: "(string \<times> (py_error + pyval)) list \<Rightarrow> py_error + pydict" where
  "collect [] = Inr []"
| "collect ((k, r) # rest) =
     (case r of
        Inl e \<Rightarrow> Inl e
      | Inr v \<Rightarrow> (case collect rest of Inl e \<Rightarrow> Inl e | Inr d \<Rightarrow> Inr ((k, v) # d)))"

definition RunnableParallel :: "(string \<times> (py_error + pyval)) list \<Rightarrow> py_error + pyval" where
  "RunnableParallel steps = (case collect steps of Inl e \<Rightarrow> Inl e | Inr d \<Rightarrow> Inr (PyDict d))"

text \<open>
  \<open>detector_chain\<close>: the detector's chain piped into a mapping of three runnables, each
  applied to the output of the detector's chain: \<open>RunnablePassthrough\<close> returns that
  output itself, the item getters read its two fields.
\<close>

definition detector_chain ::
  "decoder \<Rightarrow> BaseChatModel \<Rightarrow> pydict \<Rightarrow> world \<Rightarrow> (py_error + pyval) \<times> world" where
  "detector_chain dec llm inp w =
     (case chains_getitem dec llm ''detector'' inp w of
        (Inl e, w1) \<Rightarrow> (Inl e, w1)
      | (Inr out, w1) \<Rightarrow>
          (RunnableParallel
             [(''message'', Inr out),
              (''classification'', itemgetter ''classification'' out),
              (''explanation'', itemgetter ''explanation'' out)],
           w1))"

text \<open>
  \<open>validator_chain\<close>: a mapping of two runnables applied to the output of
  \<open>detector_chain\<close>: the two fields of the detector under \<open>detector\<close>, and the
  validator's chain under \<open>validator\<close>. The chain of a prompt takes a mapping.
\<close>

definition validator_chain ::
  "decoder \<Rightarrow> BaseChatModel \<Rightarrow> pyval \<Rightarrow> world \<Rightarrow> (py_error + pyval) \<times> world" where
  "validator_chain dec llm x w =
     (case (case x of
              PyDict xd \<Rightarrow> chains_getitem dec llm ''validator'' xd w
            | _ \<Rightarrow> (Inl TypeError, w)) of
        (v, w1) \<Rightarrow>
          (RunnableParallel
             [(''detector'',
               RunnableParallel
                 [(''classification'', itemgetter ''classification'' x),
                  (''explanation'', itemgetter ''explanation'' x)]),
              (''validator'', v)],
           w1))"

definition detection ::
  "decoder \<Rightarrow> BaseChatModel \<Rightarrow> pydict \<Rightarrow> world \<Rightarrow> (py_error + pyval) \<times> world" where
  "detection dec llm inp w =
     (case detector_chain dec llm inp w of
        (Inl e, w1) \<Rightarrow> (Inl e, w1)
      | (Inr x, w1) \<Rightarrow> validator_chain dec llm x w1)"

text \<open>
  \<open>map_chain\<close>, the runnable that \<open>parallel_text_analyser_chains\<close> returns, invoked on an
  input mapping. Each prompt is invoked once, so the answers do not depend on the order in
  which the branches reach the model; the calls are logged in the order of the keys.
\<close>

definition parallel_text_analyser_chains ::
  "decoder \<Rightarrow> BaseChatModel \<Rightarrow> OpenAIModerationChain \<Rightarrow> pydict \<Rightarrow> world
     \<Rightarrow> (py_error + pyval) \<times> world" where
  "parallel_text_analyser_chains dec llm moderator inp w =
     (case detection dec llm inp w of
        (r1, w1) \<Rightarrow>
     (case chains_getitem dec llm ''classifier'' inp w1 of
        (r2, w2) \<Rightarrow>
     (case chains_getitem dec llm ''right-wing-rater'' inp w2 of
        (r3, w3) \<Rightarrow>
     (case Chain_invoke moderator inp w3 of
        (r4, w4) \<Rightarrow>
          (RunnableParallel
             [(''detection'', r1), (''classifier'', r2),
              (''right_wing_rater'', r3), (''moderator'', r4)],
           w4)))))"

text \<open>Reading a value along a path of keys, \<open>report[k1][k2]...\<close>, and \<open>d.keys()\<close>.\<close>

fun lookup_path :: "pyval \<Rightarrow> string list \<Rightarrow> py_error + pyval" where
  "lookup_path v [] = Inr v"
| "lookup_path v (k # ks) =
     (case itemgetter k v of Inl e \<Rightarrow> Inl e | Inr x \<Rightarrow> lookup_path x ks)"

definition read_path :: "py_error + pyval \<Rightarrow> string list \<Rightarrow> py_error + pyval" where
  "read_path r path = (case r of Inl e \<Rightarrow> Inl e | Inr v \<Rightarrow> lookup_path v path)"

fun keys :: "pyval \<Rightarrow> string list" where
  "keys (PyDict d) = map fst d"
| "keys v = []"

section \<open>Example runs\<close>

definition ex_message :: string where
  "ex_message = ''You suck!''"

definition ex_detector_text :: string where
  \<open>ex_detector_text =
     ''{"explanation": "An insult.", "classification": "Direct hate speech"}''\<close>

definition ex_validator_text :: string where
  \<open>ex_validator_text =
     ''{"classification": "Direct hate speech", "explanation": "I agree."}''\<close>

definition ex_classifier_text :: string where
  \<open>ex_classifier_text =
     ''{"classification": "Offensive insult", "racism": false, "explanation": "Insult."}''\<close>

definition ex_rater_text :: string where
  \<open>ex_rater_text =
     ''{"right_wing_indicator": "yes", "rating": "1", "explanation": "Hints."}''\<close>

definition ex_prose :: string where
  "ex_prose = ''I think this is direct hate speech.''"

text \<open>What a JSON decoder yields on the example texts; the prose is not JSON.\<close>

definition ex_decoder :: decoder where
  "ex_decoder text =
     (if text = ex_detector_text then
        Some [(''explanation'', PyStr ''An insult.''),
              (''classification'', PyStr ''Direct hate speech'')]
      else if text = ex_validator_text then
        Some [(''classification'', PyStr ''Direct hate speech''),
              (''explanation'', PyStr ''I agree.'')]
      else if text = ex_classifier_text then
        Some [(''classification'', PyStr ''Offensive insult''), (''racism'', PyBool False),
              (''explanation'', PyStr ''Insult.'')]
      else if text = ex_rater_text then
        Some [(''right_wing_indicator'', PyStr ''yes''), (''rating'', PyStr ''1''),
              (''explanation'', PyStr ''Hints.'')]
      else None)"

definition ex_answers :: "nat \<Rightarrow> prompt_value \<Rightarrow> py_error + string" where
  "ex_answers n pv =
     (if pv_name pv = ''detector'' then Inr ex_detector_text
      else if pv_name pv = ''validator'' then Inr ex_validator_text
      else if pv_name pv = ''classifier'' then Inr ex_classifier_text
      else Inr ex_rater_text)"

text \<open>A model at temperature 0, and one at 0.7.\<close>

definition ex_llm :: BaseChatModel where
  "ex_llm = \<lparr>temperature = 0, respond = ex_answers\<rparr>"

definition ex_llm_warm :: BaseChatModel where
  "ex_llm_warm = \<lparr>temperature = 7 / 10, respond = ex_answers\<rparr>"

text \<open>A model that answers one prompt in prose, or with the empty text, each time.\<close>

definition ex_llm_prose :: "string \<Rightarrow> string \<Rightarrow> BaseChatModel" where
  "ex_llm_prose stage text =
     \<lparr>temperature = 0,
      respond = (\<lambda>n pv. if pv_name pv = stage then Inr text else ex_answers n pv)\<rparr>"

text \<open>A model whose call for the detector's prompt fails.\<close>

definition ex_llm_down :: BaseChatModel where
  "ex_llm_down =
     \<lparr>temperature = 0,
      respond = (\<lambda>n pv. if pv_name pv = ''detector'' then Inl (ProviderError ''timeout'')
                         else ex_answers n pv)\<rparr>"

definition ex_moderation :: Moderation where
  "ex_moderation =
     \<lparr>categories = [(''harassment'', True)], category_scores = [(''harassment'', 9 / 10)],
      flagged = False\<rparr>"

definition ex_client :: moderations where
  "ex_client text model = Inr \<lparr>results = [ex_moderation]\<rparr>"

definition ex_flagged_client :: moderations where
  "ex_flagged_client text model = Inr \<lparr>results = [ex_moderation\<lparr>flagged := True\<rparr>]\<rparr>"

text \<open>A moderation service that answers with no result.\<close>

definition ex_empty_client :: moderations where
  "ex_empty_client text model = Inr \<lparr>results = []\<rparr>"

definition ex_input :: pydict where
  "ex_input = [(''message'', PyStr ex_message)]"

section \<open>The moderation chain\<close>

lemma call_ignores_error_field:
  "OpenAIModerationChain_call (self\<lparr>error := b\<rparr>) inputs w
     = OpenAIModerationChain_call self inputs w"
  by (simp add: OpenAIModerationChain_call_def split: sum.splits prod.splits list.splits)

text \<open>
  Claim C10, as the spec states it: for every input \<open>_call\<close> returns the first moderation
  result under \<open>mod_results\<close>, and the only way the chain fails is an exception of the
  client. With a client that answers, \<open>_call\<close> raises KeyError on an input mapping
  without the input key, and IndexError when the answer carries no result.
\<close>

theorem moderation_call_fails_without_client_failure:
  "fst (OpenAIModerationChain_call (new_OpenAIModerationChain ex_client) [] world0)
     = Inl (KeyError [''message''])
   \<and> fst (OpenAIModerationChain_call (new_OpenAIModerationChain ex_empty_client) ex_input
            world0)
     = Inl IndexError"
  by (simp add: OpenAIModerationChain_call_def new_OpenAIModerationChain_def getitem_def
        moderations_create_def ex_empty_client_def ex_input_def)

text \<open>
  Claim C10, amended. The moderation chain does not raise on flagged content. Its
  \<open>error\<close> field is never read: changing it changes nothing. For every input mapping,
  \<open>_call\<close> returns a value exactly when the mapping has the input key and the client
  answers with at least one result, and the value is then the dump of the first result
  under the output key (\<open>mod_results\<close> for a chain built with the defaults), whatever
  the result's \<open>flagged\<close> field says. \<open>_call\<close> raises in three cases and no other:
  KeyError when the mapping lacks the input key, the client's exception when the client
  raises, and IndexError when the client's answer carries no result.
\<close>

theorem moderation_call_outcomes:
  "OpenAIModerationChain_call (self\<lparr>error := b\<rparr>) inputs w
     = OpenAIModerationChain_call self inputs w
   \<and> (\<forall>text out r rs.
         map_of inputs (input_key self) = Some text
           \<and> client self text (model_name self) = Inr out \<and> results out = r # rs
         \<longrightarrow> fst (OpenAIModerationChain_call self inputs w)
               = Inr [(output_key self, PyDict (model_dump r))])
   \<and> (\<forall>v. fst (OpenAIModerationChain_call self inputs w) = Inr v
         \<longrightarrow> (\<exists>text out r rs.
                map_of inputs (input_key self) = Some text
                  \<and> client self text (model_name self) = Inr out \<and> results out = r # rs
                  \<and> v = [(output_key self, PyDict (model_dump r))]))
   \<and> (\<forall>e. fst (OpenAIModerationChain_call self inputs w) = Inl e
         \<longleftrightarrow> (map_of inputs (input_key self) = None \<and> e = KeyError [input_key self])
             \<or> (\<exists>text. map_of inputs (input_key self) = Some text
                    \<and> client self text (model_name self) = Inl e)
             \<or> (\<exists>text out. map_of inputs (input_key self) = Some text
                    \<and> client self text (model_name self) = Inr out
                    \<and> results out = [] \<and> e = IndexError))
   \<and> output_key (new_OpenAIModerationChain cl) = ''mod_results''"
proof -
  have a: "OpenAIModerationChain_call (self\<lparr>error := b\<rparr>) inputs w
           = OpenAIModerationChain_call self inputs w"
    by (rule call_ignores_error_field)
  have b: "\<forall>text out r rs.
         map_of inputs (input_key self) = Some text
           \<and> client self text (model_name self) = Inr out \<and> results out = r # rs
         \<longrightarrow> fst (OpenAIModerationChain_call self inputs w)
               = Inr [(output_key self, PyDict (model_dump r))]"
    by (simp add: OpenAIModerationChain_call_def moderations_create_def getitem_def)
  have c: "\<forall>v. fst (OpenAIModerationChain_call self inputs w) = Inr v
         \<longrightarrow> (\<exists>text out r rs.
                map_of inputs (input_key self) = Some text
                  \<and> client self text (model_name self) = Inr out \<and> results out = r # rs
                  \<and> v = [(output_key self, PyDict (model_dump r))])"
    by (auto simp: OpenAIModerationChain_call_def moderations_create_def getitem_def
             split: option.splits sum.splits list.splits)
  have d: "\<forall>e. fst (OpenAIModerationChain_call self inputs w) = Inl e
         \<longleftrightarrow> (map_of inputs (input_key self) = None \<and> e = KeyError [input_key self])
             \<or> (\<exists>text. map_of inputs (input_key self) = Some text
                    \<and> client self text (model_name self) = Inl e)
             \<or> (\<exists>text out. map_of inputs (input_key self) = Some text
                    \<and> client self text (model_name self) = Inr out
                    \<and> results out = [] \<and> e = IndexError)"
    by (auto simp: OpenAIModerationChain_call_def moderations_create_def getitem_def
             split: option.splits sum.splits list.splits)
  have e: "output_key (new_OpenAIModerationChain cl) = ''mod_results''"
    by (simp add: new_OpenAIModerationChain_def)
  from a b c d e show ?thesis by blast
qed

theorem moderation_call_outcomes_witness:
  "fst (OpenAIModerationChain_call
          ((new_OpenAIModerationChain ex_flagged_client)\<lparr>error := True\<rparr>) ex_input world0)
     = Inr [(''mod_results'', PyDict (model_dump (ex_moderation\<lparr>flagged := True\<rparr>)))]
   \<and> fst (OpenAIModerationChain_call (new_OpenAIModerationChain ex_empty_client) ex_input
            world0)
     = Inl IndexError"
proof -
  let ?c = "new_OpenAIModerationChain ex_flagged_client"
  let ?e = "new_OpenAIModerationChain ex_empty_client"
  note o = moderation_call_outcomes
             [where self = ?c and b = True and inputs = ex_input and w = world0
                and cl = ex_flagged_client]
  note p = moderation_call_outcomes
             [where self = ?e and b = False and inputs = ex_input and w = world0
                and cl = ex_empty_client]
  have k: "map_of ex_input (input_key ?c) = Some (PyStr ex_message)
           \<and> client ?c (PyStr ex_message) (model_name ?c)
               = Inr \<lparr>results = [ex_moderation\<lparr>flagged := True\<rparr>]\<rparr>
           \<and> results \<lparr>results = [ex_moderation\<lparr>flagged := True\<rparr>]\<rparr>
               = ex_moderation\<lparr>flagged := True\<rparr> # []"
    by (simp add: new_OpenAIModerationChain_def ex_flagged_client_def ex_input_def)
  have out: "output_key ?c = ''mod_results''"
    by (simp add: new_OpenAIModerationChain_def)
  from o k have "fst (OpenAIModerationChain_call ?c ex_input world0)
                   = Inr [(output_key ?c, PyDict (model_dump (ex_moderation\<lparr>flagged := True\<rparr>)))]"
    by blast
  with o out have one: "fst (OpenAIModerationChain_call (?c\<lparr>error := True\<rparr>) ex_input world0)
                   = Inr [(''mod_results'', PyDict (model_dump (ex_moderation\<lparr>flagged := True\<rparr>)))]"
    by simp
  have m: "map_of ex_input (input_key ?e) = Some (PyStr ex_message)
           \<and> client ?e (PyStr ex_message) (model_name ?e) = Inr \<lparr>results = []\<rparr>
           \<and> results \<lparr>results = []\<rparr> = []"
    by (simp add: new_OpenAIModerationChain_def ex_empty_client_def ex_input_def)
  from p m have two: "fst (OpenAIModerationChain_call ?e ex_input world0) = Inl IndexError"
    by blast
  from one two show ?thesis by simp
qed

section \<open>Evaluating the example runs\<close>

lemmas model_defs =
  analyse_text_message_with_llm_def get_openai_moderator_results_def moderations_create_def
  text_analyser_prompts_def run_stage_def chain_invoke_def invoke_prompt_def llm_invoke_def
  attempts_def logging_warning_def world0_def setitem_def dict_update_def getitem_def
  HATESPEECH_DETECTOR_PROMPT_def HATESPEECH_VALIDATOR_PROMPT_def
  HATESPEECH_CLASSIFICATION_PROMPT_def RIGHT_WING_RATING_PROMPT_def
  parallel_text_analyser_chains_def detection_def detector_chain_def validator_chain_def
  chains_getitem_def chains_def RunnableParallel_def Chain_invoke_def
  OpenAIModerationChain_call_def new_OpenAIModerationChain_def model_dump_def read_path_def

lemmas ex_defs =
  ex_message_def ex_detector_text_def ex_validator_text_def ex_classifier_text_def
  ex_rater_text_def ex_prose_def ex_decoder_def ex_answers_def ex_llm_def ex_llm_warm_def
  ex_llm_prose_def ex_llm_down_def ex_moderation_def ex_client_def ex_flagged_client_def
  ex_input_def

section \<open>The calls a stage and the loop make\<close>

lemma chain_invoke_log:
  assumes "chain_invoke dec prompt llm p inp w = (r, w')"
  shows "\<exists>new. llm_calls w' = llm_calls w @ new
           \<and> (\<forall>c \<in> set new. c = \<lparr>call_prompt = \<lparr>pv_name = name prompt, pv_input = inp\<rparr>,
                                     call_temperature = temperature llm\<rparr>)
           \<and> ((\<exists>v. r = Inr v) \<longrightarrow> new \<noteq> [])
           \<and> moderation_calls w' = moderation_calls w"
  using assms
  by (auto simp: chain_invoke_def invoke_prompt_def llm_invoke_def
           split: sum.splits list.splits prod.splits)

lemma run_stage_log:
  assumes "run_stage dec llm pf inp w = (r, w')"
  shows "\<exists>new. llm_calls w' = llm_calls w @ new
           \<and> (\<forall>c \<in> set new. c = \<lparr>call_prompt = \<lparr>pv_name = name (fst pf), pv_input = inp\<rparr>,
                                     call_temperature = temperature llm\<rparr>)
           \<and> ((\<exists>v. r = Inr v) \<longrightarrow> new \<noteq> [])
           \<and> moderation_calls w' = moderation_calls w"
proof -
  obtain r1 w1 where c1: "chain_invoke dec (fst pf) llm (JsonOutputParser (snd pf)) inp w = (r1, w1)"
    by (cases "chain_invoke dec (fst pf) llm (JsonOutputParser (snd pf)) inp w")
  from chain_invoke_log [OF c1] obtain n1 where
    n1: "llm_calls w1 = llm_calls w @ n1"
        "\<forall>c \<in> set n1. c = \<lparr>call_prompt = \<lparr>pv_name = name (fst pf), pv_input = inp\<rparr>,
                              call_temperature = temperature llm\<rparr>"
        "(\<exists>v. r1 = Inr v) \<longrightarrow> n1 \<noteq> []"
        "moderation_calls w1 = moderation_calls w"
    by blast
  show ?thesis
  proof (cases "r1 = Inl OutputParserException")
    case False
    then have "run_stage dec llm pf inp w = (r1, w1)"
      using c1 by (auto simp: run_stage_def split: sum.splits py_error.splits)
    with assms n1 show ?thesis by auto
  next
    case True
    let ?w2 = "logging_warning ''Parsing failed - Switching parser to StrOutputParser'' w1"
    have c2: "chain_invoke dec (fst pf) llm StrOutputParser inp ?w2 = (r, w')"
      using c1 True assms by (simp add: run_stage_def)
    from chain_invoke_log [OF c2] obtain n2 where
      n2: "llm_calls w' = llm_calls ?w2 @ n2"
          "\<forall>c \<in> set n2. c = \<lparr>call_prompt = \<lparr>pv_name = name (fst pf), pv_input = inp\<rparr>,
                                call_temperature = temperature llm\<rparr>"
          "(\<exists>v. r = Inr v) \<longrightarrow> n2 \<noteq> []"
          "moderation_calls w' = moderation_calls ?w2"
      by blast
    have "llm_calls w' = llm_calls w @ (n1 @ n2)"
      using n1(1) n2(1) by (simp add: logging_warning_def)
    moreover have "\<forall>c \<in> set (n1 @ n2). c = \<lparr>call_prompt = \<lparr>pv_name = name (fst pf), pv_input = inp\<rparr>,
                                call_temperature = temperature llm\<rparr>"
      using n1(2) n2(2) by auto
    moreover have "(\<exists>v. r = Inr v) \<longrightarrow> n1 @ n2 \<noteq> []" using n2(3) by simp
    moreover have "moderation_calls w' = moderation_calls w"
      using n1(4) n2(4) by (simp add: logging_warning_def)
    ultimately show ?thesis by blast
  qed
qed






lemma moderator_results_log:
  assumes "get_openai_moderator_results cl msg model w = (r, w')"
  shows "llm_calls w' = llm_calls w"
  using assms
  by (auto simp: get_openai_moderator_results_def moderations_create_def
           split: sum.splits list.splits)

section \<open>The sequential analyser feeds the detector's output to the later stages\<close>



section \<open>The fallback to the string parser\<close>

text \<open>
  The fallback as it works for a stage after the detector: the classifier answers in
  prose, the stage is called once more with the string parser, and the prose is the
  classifier's entry of the results.
\<close>

lemma fallback_on_a_later_stage:
  "fst (analyse_text_message_with_llm ex_decoder ex_client ex_message
          (ex_llm_prose ''classifier'' ex_prose) world0)
   = Inr [(''moderator'', PyDict (model_dump ex_moderation)),
          (''detector'', PyDict [(''explanation'', PyStr ''An insult.''),
                                 (''classification'', PyStr ''Direct hate speech'')]),
          (''validator'', PyDict [(''classification'', PyStr ''Direct hate speech''),
                                  (''explanation'', PyStr ''I agree.'')]),
          (''classifier'', PyStr ''I think this is direct hate speech.''),
          (''right-wing-rater'', PyDict [(''right_wing_indicator'', PyStr ''yes''),
                                         (''rating'', PyStr ''1''),
                                         (''explanation'', PyStr ''Hints.'')])]"
  by (simp add: model_defs ex_defs)

text \<open>
  Claim C1. A stage whose answer fails the JSON decoding logs a warning, calls the model
  once more with the string parser and yields the raw text. For the detector's stage the
  run does not get that far: the raw text goes to \<open>input.update\<close>, which raises
  ValueError on a non-empty string, after the two calls and the warning and before the
  text is stored in the results. The run on the example message, with a detector that
  answers in prose:
\<close>

theorem detector_fallback_breaks_run:
  "analyse_text_message_with_llm ex_decoder ex_client ex_message
     (ex_llm_prose ''detector'' ex_prose) world0
   = (Inl ValueError,
      \<lparr>llm_calls =
         [\<lparr>call_prompt = \<lparr>pv_name = ''detector'', pv_input = [(''message'', PyStr ''You suck!'')]\<rparr>,
           call_temperature = 0\<rparr>,
          \<lparr>call_prompt = \<lparr>pv_name = ''detector'', pv_input = [(''message'', PyStr ''You suck!'')]\<rparr>,
           call_temperature = 0\<rparr>],
       moderation_calls = [(PyStr ''You suck!'', ''text-moderation-latest'')],
       warnings = [''Parsing failed - Switching parser to StrOutputParser'']\<rparr>)"
  by (simp add: model_defs ex_defs)

text \<open>
  Claim C4. With a detector answer that cannot be decoded, the detector's entry is the raw
  text and the validator still runs, on the raw text. In the sequential analyser the run
  ends with ValueError, and with KeyError for the validator's missing variables when the
  raw text is empty; in the parallel runnable it ends with OutputParserException. In none
  of them the validator's prompt reaches the model.
\<close>

theorem unparsable_detector_never_reaches_validator:
  "fst (analyse_text_message_with_llm ex_decoder ex_client ex_message
          (ex_llm_prose ''detector'' ex_prose) world0) = Inl ValueError
   \<and> filter (\<lambda>c. pv_name (call_prompt c) = ''validator'')
        (llm_calls (snd (analyse_text_message_with_llm ex_decoder ex_client ex_message
                           (ex_llm_prose ''detector'' ex_prose) world0))) = []
   \<and> fst (analyse_text_message_with_llm ex_decoder ex_client ex_message
            (ex_llm_prose ''detector'' []) world0)
       = Inl (KeyError [''classification'', ''explanation''])
   \<and> filter (\<lambda>c. pv_name (call_prompt c) = ''validator'')
        (llm_calls (snd (analyse_text_message_with_llm ex_decoder ex_client ex_message
                           (ex_llm_prose ''detector'' []) world0))) = []
   \<and> fst (parallel_text_analyser_chains ex_decoder (ex_llm_prose ''detector'' ex_prose)
            (new_OpenAIModerationChain ex_client) ex_input world0)
       = Inl OutputParserException"
  by (simp add: model_defs ex_defs)

section \<open>The report of the parallel runnable\<close>

lemma chains_getitem_simps:
  "chains_getitem dec llm ''detector''
     = chain_invoke dec HATESPEECH_DETECTOR_PROMPT llm (JsonOutputParser HatespeechDetectionFormat)"
  "chains_getitem dec llm ''validator''
     = chain_invoke dec HATESPEECH_VALIDATOR_PROMPT llm (JsonOutputParser HatespeechValidatorFormat)"
  "chains_getitem dec llm ''classifier''
     = chain_invoke dec HATESPEECH_CLASSIFICATION_PROMPT llm
         (JsonOutputParser HatespeechClassifierFormat)"
  "chains_getitem dec llm ''right-wing-rater''
     = chain_invoke dec RIGHT_WING_RATING_PROMPT llm (JsonOutputParser RightWingRatingFormat)"
  by (simp_all add: chains_getitem_def chains_def text_analyser_prompts_def
        HATESPEECH_DETECTOR_PROMPT_def HATESPEECH_VALIDATOR_PROMPT_def
        HATESPEECH_CLASSIFICATION_PROMPT_def RIGHT_WING_RATING_PROMPT_def)

lemma collect_Inr:
  "collect steps = Inr d \<Longrightarrow> map fst d = map fst steps \<and> map (Inr \<circ> snd) d = map snd steps"
  by (induction steps arbitrary: d) (auto split: sum.splits)

lemma collect_total:
  "\<forall>kr \<in> set steps. \<exists>v. snd kr = Inr v \<Longrightarrow> \<exists>d. collect steps = Inr d"
  by (induction steps) (auto split: sum.splits)

lemma RunnableParallel_Inr:
  assumes "RunnableParallel steps = Inr v"
  shows "\<exists>d. v = PyDict d \<and> map fst d = map fst steps \<and> map (Inr \<circ> snd) d = map snd steps"
  using assms collect_Inr [of steps]
  by (auto simp: RunnableParallel_def split: sum.splits)

lemma RunnableParallel_two:
  assumes "RunnableParallel [(k1, r1), (k2, r2)] = Inr v"
  shows "\<exists>v1 v2. r1 = Inr v1 \<and> r2 = Inr v2 \<and> v = PyDict [(k1, v1), (k2, v2)]"
  using assms by (auto simp: RunnableParallel_def split: sum.splits)

lemma RunnableParallel_four:
  assumes "RunnableParallel [(k1, r1), (k2, r2), (k3, r3), (k4, r4)] = Inr v"
  shows "\<exists>v1 v2 v3 v4. r1 = Inr v1 \<and> r2 = Inr v2 \<and> r3 = Inr v3 \<and> r4 = Inr v4
           \<and> v = PyDict [(k1, v1), (k2, v2), (k3, v3), (k4, v4)]"
  using assms by (auto simp: RunnableParallel_def split: sum.splits)

lemma validator_chain_Inr:
  assumes "validator_chain dec llm x w = (Inr dt, w')"
  shows "\<exists>det val. dt = PyDict [(''detector'', det), (''validator'', val)]"
proof -
  obtain v w1 where "(case x of PyDict xd \<Rightarrow> chains_getitem dec llm ''validator'' xd w
            | _ \<Rightarrow> (Inl TypeError, w)) = (v, w1)"
    by (cases "(case x of PyDict xd \<Rightarrow> chains_getitem dec llm ''validator'' xd w
            | _ \<Rightarrow> (Inl TypeError, w))")
  with assms have "RunnableParallel
             [(''detector'',
               RunnableParallel
                 [(''classification'', itemgetter ''classification'' x),
                  (''explanation'', itemgetter ''explanation'' x)]),
              (''validator'', v)] = Inr dt"
    by (simp add: validator_chain_def)
  from RunnableParallel_two [OF this] show ?thesis by blast
qed

lemma detection_Inr:
  assumes "detection dec llm inp w = (Inr dt, w')"
  shows "\<exists>det val. dt = PyDict [(''detector'', det), (''validator'', val)]"
  using assms validator_chain_Inr
  by (auto simp: detection_def split: prod.splits sum.splits)

text \<open>
  Claim C3. The validator runs after the detector, on the original message and the
  detector's classification and explanation. In the parallel runnable the value under
  \<open>message\<close> that the validator's prompt gets is the whole output of the detector, not
  the message of the run; the sequential analyser passes the message.
\<close>

theorem parallel_validator_message_is_detector_output:
  "map (\<lambda>c. pv_input (call_prompt c))
     (filter (\<lambda>c. pv_name (call_prompt c) = ''validator'')
        (llm_calls (snd (parallel_text_analyser_chains ex_decoder ex_llm
                           (new_OpenAIModerationChain ex_client) ex_input world0))))
   = [[(''message'', PyDict [(''explanation'', PyStr ''An insult.''),
                             (''classification'', PyStr ''Direct hate speech'')]),
       (''classification'', PyStr ''Direct hate speech''),
       (''explanation'', PyStr ''An insult.'')]]
   \<and> map (\<lambda>c. pv_input (call_prompt c))
     (filter (\<lambda>c. pv_name (call_prompt c) = ''validator'')
        (llm_calls (snd (analyse_text_message_with_llm ex_decoder ex_client ex_message ex_llm
                           world0))))
   = [[(''message'', PyStr ''You suck!''),
       (''explanation'', PyStr ''An insult.''),
       (''classification'', PyStr ''Direct hate speech'')]]"
  by (simp add: model_defs ex_defs)

text \<open>
  Claim C8. The report is collected from the values of the branches by a function, which
  fails on no list of values (it is total, and applied again to the same values it gives
  the same report), and a run that returns has exactly the keys \<open>detection\<close>,
  \<open>classifier\<close>, \<open>right_wing_rater\<close> and \<open>moderator\<close>, with exactly \<open>detector\<close> and
  \<open>validator\<close> under \<open>detection\<close>.
\<close>

theorem report_has_exactly_the_five_slots:
  assumes run: "parallel_text_analyser_chains dec llm moderator inp w = (Inr report, w')"
  shows "(\<exists>det val c r m.
            report = PyDict [(''detection'', PyDict [(''detector'', det), (''validator'', val)]),
                             (''classifier'', c), (''right_wing_rater'', r), (''moderator'', m)])
       \<and> keys report = [''detection'', ''classifier'', ''right_wing_rater'', ''moderator'']
       \<and> (\<exists>dt. itemgetter ''detection'' report = Inr dt \<and> keys dt = [''detector'', ''validator''])
       \<and> (\<forall>steps. (\<forall>kr \<in> set steps. \<exists>v. snd kr = Inr v)
             \<longrightarrow> (\<exists>d. RunnableParallel steps = Inr (PyDict d) \<and> map fst d = map fst steps))"
proof -
  obtain r1 w1 where d1: "detection dec llm inp w = (r1, w1)"
    by (cases "detection dec llm inp w")
  obtain r2 w2 where d2: "chains_getitem dec llm ''classifier'' inp w1 = (r2, w2)"
    by (cases "chains_getitem dec llm ''classifier'' inp w1")
  obtain r3 w3 where d3: "chains_getitem dec llm ''right-wing-rater'' inp w2 = (r3, w3)"
    by (cases "chains_getitem dec llm ''right-wing-rater'' inp w2")
  obtain r4 w4 where d4: "Chain_invoke moderator inp w3 = (r4, w4)"
    by (cases "Chain_invoke moderator inp w3")
  from run d1 d2 d3 d4 have
    "RunnableParallel [(''detection'', r1), (''classifier'', r2),
                       (''right_wing_rater'', r3), (''moderator'', r4)] = Inr report"
    by (simp add: parallel_text_analyser_chains_def)
  from RunnableParallel_four [OF this] obtain dt c r m where
    rs: "r1 = Inr dt" "r2 = Inr c" "r3 = Inr r" "r4 = Inr m"
    and rep: "report = PyDict [(''detection'', dt), (''classifier'', c),
                              (''right_wing_rater'', r), (''moderator'', m)]"
    by blast
  from detection_Inr [OF d1 [unfolded rs(1)]] obtain det val where
    dt: "dt = PyDict [(''detector'', det), (''validator'', val)]" by blast
  have shape: "\<exists>det val c r m.
            report = PyDict [(''detection'', PyDict [(''detector'', det), (''validator'', val)]),
                             (''classifier'', c), (''right_wing_rater'', r), (''moderator'', m)]"
    using rep dt by blast
  have k: "keys report = [''detection'', ''classifier'', ''right_wing_rater'', ''moderator'']"
    using rep by simp
  have n: "\<exists>dt. itemgetter ''detection'' report = Inr dt \<and> keys dt = [''detector'', ''validator'']"
    using rep dt by (simp add: getitem_def)
  have t: "\<forall>steps. (\<forall>kr \<in> set steps. \<exists>v. snd kr = Inr v)
             \<longrightarrow> (\<exists>d. RunnableParallel steps = Inr (PyDict d) \<and> map fst d = map fst steps)"
  proof (intro allI impI)
    fix steps :: "(string \<times> (py_error + pyval)) list"
    assume "\<forall>kr \<in> set steps. \<exists>v. snd kr = Inr v"
    from collect_total [OF this] obtain d where d: "collect steps = Inr d" by blast
    with collect_Inr [OF d] show "\<exists>d. RunnableParallel steps = Inr (PyDict d) \<and> map fst d = map fst steps"
      by (simp add: RunnableParallel_def)
  qed
  from shape k n t show ?thesis by blast
qed

theorem report_has_exactly_the_five_slots_witness:
  "keys (projr (fst (parallel_text_analyser_chains ex_decoder ex_llm
                       (new_OpenAIModerationChain ex_client) ex_input world0)))
     = [''detection'', ''classifier'', ''right_wing_rater'', ''moderator'']
   \<and> RunnableParallel [(''classifier'', Inr (PyStr ''a'')), (''moderator'', Inr PyNone)]
     = Inr (PyDict [(''classifier'', PyStr ''a''), (''moderator'', PyNone)])"
proof -
  let ?run = "parallel_text_analyser_chains ex_decoder ex_llm
                (new_OpenAIModerationChain ex_client) ex_input world0"
  let ?steps = "[(''classifier'', Inr (PyStr ''a'')), (''moderator'', Inr PyNone)]
                  :: (string \<times> (py_error + pyval)) list"
  have "\<exists>report w'. ?run = (Inr report, w')"
    by (simp add: model_defs ex_defs)
  then obtain report w' where run: "?run = (Inr report, w')" by blast
  note slots = report_has_exactly_the_five_slots [OF run]
  from slots have k: "keys report = [''detection'', ''classifier'', ''right_wing_rater'', ''moderator'']"
    by blast
  have "\<forall>kr \<in> set ?steps. \<exists>v. snd kr = Inr v" by simp
  with slots obtain d where d: "RunnableParallel ?steps = Inr (PyDict d)" "map fst d = map fst ?steps"
    by blast
  have "RunnableParallel ?steps = Inr (PyDict [(''classifier'', PyStr ''a''), (''moderator'', PyNone)])"
    using d by (simp add: RunnableParallel_def)
  with k run show ?thesis by simp
qed

text \<open>
  Claim C5, as the spec states it: the moderation payload is directly under
  \<open>moderator\<close>, so that \<open>report.moderator.categories.harassment\<close> is the category
  flag. On the example run that path raises KeyError; the flag is one level deeper.
\<close>

theorem moderator_payload_not_at_top:
  "read_path (fst (parallel_text_analyser_chains ex_decoder ex_llm
                     (new_OpenAIModerationChain ex_client) ex_input world0))
     [''moderator'', ''categories'', ''harassment''] = Inl (KeyError [''categories''])
   \<and> read_path (fst (parallel_text_analyser_chains ex_decoder ex_llm
                     (new_OpenAIModerationChain ex_client) ex_input world0))
     [''moderator'', ''mod_results'', ''categories'', ''harassment''] = Inr (PyBool True)"
  by (simp add: model_defs ex_defs)

lemma Chain_invoke_default_Inr:
  assumes "Chain_invoke (new_OpenAIModerationChain cl) [(''message'', PyStr message)] w = (Inr m, w')"
  shows "\<exists>out r rs. cl (PyStr message) ''text-moderation-latest'' = Inr out \<and> results out = r # rs
           \<and> m = PyDict [(''message'', PyStr message), (''mod_results'', PyDict (model_dump r))]"
  using assms
  by (auto simp: Chain_invoke_def OpenAIModerationChain_call_def new_OpenAIModerationChain_def
        getitem_def moderations_create_def dict_update_def setitem_def
        split: sum.splits list.splits)

text \<open>
  Claim C5, amended. The report of a run on a message, with a moderation chain built with
  the defaults, has exactly the keys \<open>detection\<close> (with \<open>detector\<close> and \<open>validator\<close>),
  \<open>classifier\<close>, \<open>right_wing_rater\<close> and \<open>moderator\<close>. The value under \<open>moderator\<close>
  is the chain's input and output merged: the message under \<open>message\<close>, and the dump of
  the first moderation result under \<open>mod_results\<close>. The categories are read at
  \<open>moderator.mod_results.categories\<close>; \<open>moderator.categories\<close> does not exist.
\<close>

theorem moderation_payload_is_under_mod_results:
  assumes run: "parallel_text_analyser_chains dec llm (new_OpenAIModerationChain cl)
                  [(''message'', PyStr message)] w = (Inr report, w')"
  shows "keys report = [''detection'', ''classifier'', ''right_wing_rater'', ''moderator'']
       \<and> (\<exists>dt. itemgetter ''detection'' report = Inr dt \<and> keys dt = [''detector'', ''validator''])
       \<and> (\<exists>out r rs. cl (PyStr message) ''text-moderation-latest'' = Inr out
             \<and> results out = r # rs
             \<and> itemgetter ''moderator'' report
                 = Inr (PyDict [(''message'', PyStr message),
                                (''mod_results'', PyDict (model_dump r))])
             \<and> lookup_path report [''moderator'', ''mod_results'', ''categories'']
                 = Inr (PyDict (map (\<lambda>(k, b). (k, PyBool b)) (categories r))))
       \<and> lookup_path report [''moderator'', ''categories''] = Inl (KeyError [''categories''])"
proof -
  let ?inp = "[(''message'', PyStr message)]"
  obtain r1 w1 where d1: "detection dec llm ?inp w = (r1, w1)"
    by (cases "detection dec llm ?inp w")
  obtain r2 w2 where d2: "chains_getitem dec llm ''classifier'' ?inp w1 = (r2, w2)"
    by (cases "chains_getitem dec llm ''classifier'' ?inp w1")
  obtain r3 w3 where d3: "chains_getitem dec llm ''right-wing-rater'' ?inp w2 = (r3, w3)"
    by (cases "chains_getitem dec llm ''right-wing-rater'' ?inp w2")
  obtain r4 w4 where d4: "Chain_invoke (new_OpenAIModerationChain cl) ?inp w3 = (r4, w4)"
    by (cases "Chain_invoke (new_OpenAIModerationChain cl) ?inp w3")
  from run d1 d2 d3 d4 have
    "RunnableParallel [(''detection'', r1), (''classifier'', r2),
                       (''right_wing_rater'', r3), (''moderator'', r4)] = Inr report"
    by (simp add: parallel_text_analyser_chains_def)
  from RunnableParallel_four [OF this] obtain dt c r m where
    rs: "r1 = Inr dt" "r2 = Inr c" "r3 = Inr r" "r4 = Inr m"
    and rep: "report = PyDict [(''detection'', dt), (''classifier'', c),
                              (''right_wing_rater'', r), (''moderator'', m)]"
    by blast
  from detection_Inr [OF d1 [unfolded rs(1)]] obtain det val where
    dt: "dt = PyDict [(''detector'', det), (''validator'', val)]" by blast
  from Chain_invoke_default_Inr [OF d4 [unfolded rs(4)]] obtain out mr rest where
    m: "cl (PyStr message) ''text-moderation-latest'' = Inr out" "results out = mr # rest"
       "m = PyDict [(''message'', PyStr message), (''mod_results'', PyDict (model_dump mr))]"
    by blast
  have k: "keys report = [''detection'', ''classifier'', ''right_wing_rater'', ''moderator'']"
    using rep by simp
  have n: "\<exists>dt. itemgetter ''detection'' report = Inr dt \<and> keys dt = [''detector'', ''validator'']"
    using rep dt by (simp add: getitem_def)
  have p: "itemgetter ''moderator'' report
             = Inr (PyDict [(''message'', PyStr message), (''mod_results'', PyDict (model_dump mr))])"
    using rep m(3) by (simp add: getitem_def)
  have q: "lookup_path report [''moderator'', ''mod_results'', ''categories'']
             = Inr (PyDict (map (\<lambda>(k, b). (k, PyBool b)) (categories mr)))"
    using rep m(3) by (simp add: getitem_def model_dump_def)
  have x: "lookup_path report [''moderator'', ''categories''] = Inl (KeyError [''categories''])"
    using rep m(3) by (simp add: getitem_def)
  from k n m(1,2) p q x show ?thesis by blast
qed

theorem moderation_payload_is_under_mod_results_witness:
  "read_path (fst (parallel_text_analyser_chains ex_decoder ex_llm
                     (new_OpenAIModerationChain ex_client) [(''message'', PyStr ex_message)] world0))
     [''moderator'', ''mod_results'', ''categories'']
   = Inr (PyDict [(''harassment'', PyBool True)])"
proof -
  let ?run = "parallel_text_analyser_chains ex_decoder ex_llm
                (new_OpenAIModerationChain ex_client) [(''message'', PyStr ex_message)] world0"
  have "\<exists>report w'. ?run = (Inr report, w')"
    by (simp add: model_defs ex_defs)
  then obtain report w' where run: "?run = (Inr report, w')" by blast
  from moderation_payload_is_under_mod_results [OF run] obtain out r rs where
    o: "ex_client (PyStr ex_message) ''text-moderation-latest'' = Inr out" "results out = r # rs"
    and p: "lookup_path report [''moderator'', ''mod_results'', ''categories'']
                 = Inr (PyDict (map (\<lambda>(k, b). (k, PyBool b)) (categories r)))"
    by blast
  from o have "r = ex_moderation" by (auto simp: ex_client_def)
  with p have "lookup_path report [''moderator'', ''mod_results'', ''categories'']
                 = Inr (PyDict [(''harassment'', PyBool True)])"
    by (simp add: ex_moderation_def)
  with run show ?thesis by (simp add: read_path_def)
qed

section \<open>Textual booleans\<close>

text \<open>
  Claim C6, as the spec states it: a boolean field that carries a word such as \<open>yes\<close> is
  coerced to a boolean as part of the parsing of a stage's answer. On the example run the
  right-wing rater answers \<open>"right_wing_indicator": "yes"\<close>, and both analysers return
  the string.
\<close>

theorem pipeline_keeps_textual_boolean:
  "read_path (fst (parallel_text_analyser_chains ex_decoder ex_llm
                     (new_OpenAIModerationChain ex_client) ex_input world0))
     [''right_wing_rater'', ''right_wing_indicator''] = Inr (PyStr ''yes'')
   \<and> map_of (projr (fst (analyse_text_message_with_llm ex_decoder ex_client ex_message ex_llm world0)))
       ''right-wing-rater''
     = Some (PyDict [(''right_wing_indicator'', PyStr ''yes''), (''rating'', PyStr ''1''),
                     (''explanation'', PyStr ''Hints.'')])"
  by (simp add: model_defs ex_defs)

lemma parse_result_pointwise:
  assumes "\<forall>kv \<in> set d. (\<exists>s. snd kv = PyStr s) \<or> (\<exists>b. snd kv = PyBool b)"
  shows "\<exists>d'. parse_result d = Inr d' \<and> map fst d' = map fst d
           \<and> map snd d' =
               map (\<lambda>kv. case snd kv of
                            PyStr s \<Rightarrow>
                              (if lower s \<in> {''true'', ''right'', ''yes''} then PyBool True
                               else if lower s \<in> {''false'', ''wrong'', ''no''} then PyBool False
                               else PyStr s)
                          | v \<Rightarrow> v) d"
  using assms
proof (induction d)
  case Nil
  then show ?case by simp
next
  case (Cons kv d)
  obtain k v where kv: "kv = (k, v)" by (cases kv)
  from Cons.prems have "\<forall>kv \<in> set d. (\<exists>s. snd kv = PyStr s) \<or> (\<exists>b. snd kv = PyBool b)"
    by simp
  from Cons.IH [OF this] obtain d' where
    d': "parse_result d = Inr d'" "map fst d' = map fst d"
        "map snd d' =
               map (\<lambda>kv. case snd kv of
                            PyStr s \<Rightarrow>
                              (if lower s \<in> {''true'', ''right'', ''yes''} then PyBool True
                               else if lower s \<in> {''false'', ''wrong'', ''no''} then PyBool False
                               else PyStr s)
                          | v \<Rightarrow> v) d"
    by blast
  from Cons.prems kv consider s where "v = PyStr s" | b where "v = PyBool b" by auto
  then show ?case
  proof cases
    case 1
    then show ?thesis using kv d' by (simp add: true_vals_def false_vals_def)
  next
    case 2
    then show ?thesis using kv d' by simp
  qed
qed

lemma stage_returns_decoded_object:
  assumes "invoke_prompt prompt inp = Inr pv"
      and "respond llm (attempts w pv) pv = Inr text"
      and "dec text = Some obj"
  shows "fst (chain_invoke dec prompt llm (JsonOutputParser fmt) inp w) = Inr (PyDict obj)
       \<and> fst (run_stage dec llm (prompt, fmt) inp w) = Inr (PyDict obj)"
  using assms by (simp add: run_stage_def chain_invoke_def llm_invoke_def)

text \<open>
  Claim C6, amended. \<open>JsonBooleanChecker.parse_result\<close>, on a dictionary whose values
  are strings and booleans, keeps the keys and replaces the value of every key, whatever
  the key, when it is a string that in lower case is \<open>true\<close>, \<open>right\<close> or \<open>yes\<close> by
  true, \<open>false\<close>, \<open>wrong\<close> or \<open>no\<close> by false; every other string and every boolean
  stays as it is, and no error is raised. No stage of the analysers applies it: a stage
  whose answer decodes returns the decoded object as it is.
\<close>

theorem boolean_checker_is_apart_from_the_stages:
  "((\<forall>kv \<in> set d. (\<exists>s. snd kv = PyStr s) \<or> (\<exists>b. snd kv = PyBool b)) \<longrightarrow>
      (\<exists>d'. parse_result d = Inr d' \<and> map fst d' = map fst d
           \<and> map snd d' =
               map (\<lambda>kv. case snd kv of
                            PyStr s \<Rightarrow>
                              (if lower s \<in> {''true'', ''right'', ''yes''} then PyBool True
                               else if lower s \<in> {''false'', ''wrong'', ''no''} then PyBool False
                               else PyStr s)
                          | v \<Rightarrow> v) d))
   \<and> (\<forall>pv text obj.
         invoke_prompt prompt inp = Inr pv \<and> respond llm (attempts w pv) pv = Inr text
           \<and> dec text = Some obj
         \<longrightarrow> fst (chain_invoke dec prompt llm (JsonOutputParser fmt) inp w) = Inr (PyDict obj)
           \<and> fst (run_stage dec llm (prompt, fmt) inp w) = Inr (PyDict obj))"
  using parse_result_pointwise [of d] stage_returns_decoded_object [of prompt inp _ llm w _ dec]
  by blast

theorem boolean_checker_is_apart_from_the_stages_witness:
  "parse_result [(''racism'', PyStr ''YES''), (''sexism'', PyStr ''No''),
                 (''violence'', PyStr ''maybe''), (''ableism'', PyBool True)]
     = Inr [(''racism'', PyBool True), (''sexism'', PyBool False),
            (''violence'', PyStr ''maybe''), (''ableism'', PyBool True)]
   \<and> fst (run_stage ex_decoder ex_llm (RIGHT_WING_RATING_PROMPT, RightWingRatingFormat)
            ex_input world0)
     = Inr (PyDict [(''right_wing_indicator'', PyStr ''yes''), (''rating'', PyStr ''1''),
                    (''explanation'', PyStr ''Hints.'')])"
proof -
  let ?d = "[(''racism'', PyStr ''YES''), (''sexism'', PyStr ''No''),
             (''violence'', PyStr ''maybe''), (''ableism'', PyBool True)]"
  let ?pv = "\<lparr>pv_name = ''right-wing-rater'', pv_input = ex_input\<rparr>"
  let ?obj = "[(''right_wing_indicator'', PyStr ''yes''), (''rating'', PyStr ''1''),
               (''explanation'', PyStr ''Hints.'')]"
  note both = boolean_checker_is_apart_from_the_stages
                [of ?d RIGHT_WING_RATING_PROMPT ex_input ex_llm world0 ex_decoder
                    RightWingRatingFormat]
  have vals: "\<forall>kv \<in> set ?d. (\<exists>s. snd kv = PyStr s) \<or> (\<exists>b. snd kv = PyBool b)"
    by auto
  with both obtain d' where
    d': "parse_result ?d = Inr d'" "map fst d' = map fst ?d"
        "map snd d' =
               map (\<lambda>kv. case snd kv of
                            PyStr s \<Rightarrow>
                              (if lower s \<in> {''true'', ''right'', ''yes''} then PyBool True
                               else if lower s \<in> {''false'', ''wrong'', ''no''} then PyBool False
                               else PyStr s)
                          | v \<Rightarrow> v) ?d"
    by blast
  have "d' = zip (map fst d') (map snd d')" by (simp add: zip_map_fst_snd)
  also have "\<dots> = [(''racism'', PyBool True), (''sexism'', PyBool False),
                     (''violence'', PyStr ''maybe''), (''ableism'', PyBool True)]"
    unfolding d'(2,3) by (simp add: lower_def lower_char_def)
  finally have one: "parse_result ?d = Inr [(''racism'', PyBool True), (''sexism'', PyBool False),
                     (''violence'', PyStr ''maybe''), (''ableism'', PyBool True)]"
    using d'(1) by simp
  have h: "invoke_prompt RIGHT_WING_RATING_PROMPT ex_input = Inr ?pv
           \<and> respond ex_llm (attempts world0 ?pv) ?pv = Inr ex_rater_text
           \<and> ex_decoder ex_rater_text = Some ?obj"
    by (simp add: model_defs ex_defs)
  with both have two: "fst (run_stage ex_decoder ex_llm
                              (RIGHT_WING_RATING_PROMPT, RightWingRatingFormat) ex_input world0)
                         = Inr (PyDict ?obj)"
    by blast
  from one two show ?thesis by simp
qed

section \<open>The temperature of the model calls\<close>

text \<open>
  Claim C7, as the spec states it: every model call of a stage is made at temperature 0.
  The analysers call the model they are given; with a model at temperature 0.7 every call
  of the example run is made at 0.7.
\<close>

theorem pipeline_temperature_not_fixed:
  "map call_temperature
     (llm_calls (snd (parallel_text_analyser_chains ex_decoder ex_llm_warm
                        (new_OpenAIModerationChain ex_client) ex_input world0)))
     = [7 / 10, 7 / 10, 7 / 10, 7 / 10]
   \<and> map call_temperature
     (llm_calls (snd (analyse_text_message_with_llm ex_decoder ex_client ex_message ex_llm_warm
                        world0)))
     = [7 / 10, 7 / 10, 7 / 10, 7 / 10]"
  by (simp add: model_defs ex_defs)

lemma chain_invoke_temperature:
  assumes "\<forall>c \<in> set (llm_calls w). call_temperature c = temperature llm"
      and "chain_invoke dec prompt llm p inp w = (r, w')"
  shows "\<forall>c \<in> set (llm_calls w'). call_temperature c = temperature llm"
proof -
  from chain_invoke_log [OF assms(2)] obtain new where
    n: "llm_calls w' = llm_calls w @ new"
       "\<forall>c \<in> set new. c = \<lparr>call_prompt = \<lparr>pv_name = name prompt, pv_input = inp\<rparr>,
                                 call_temperature = temperature llm\<rparr>"
    by blast
  from n(2) have "\<forall>c \<in> set new. call_temperature c = temperature llm" by fastforce
  with n(1) assms(1) show ?thesis by auto
qed

lemma run_stage_temperature:
  assumes "\<forall>c \<in> set (llm_calls w). call_temperature c = temperature llm"
      and "run_stage dec llm pf inp w = (r, w')"
  shows "\<forall>c \<in> set (llm_calls w'). call_temperature c = temperature llm"
proof -
  from run_stage_log [OF assms(2)] obtain new where
    n: "llm_calls w' = llm_calls w @ new"
       "\<forall>c \<in> set new. c = \<lparr>call_prompt = \<lparr>pv_name = name (fst pf), pv_input = inp\<rparr>,
                                 call_temperature = temperature llm\<rparr>"
    by blast
  from n(2) have "\<forall>c \<in> set new. call_temperature c = temperature llm" by fastforce
  with n(1) assms(1) show ?thesis by auto
qed

lemma analyse_loop_temperature:
  assumes "\<forall>c \<in> set (llm_calls w). call_temperature c = temperature llm"
      and "analyse_loop dec llm ps inp res w = (r, w')"
  shows "\<forall>c \<in> set (llm_calls w'). call_temperature c = temperature llm"
  using assms
proof (induction ps arbitrary: inp res w)
  case Nil
  then show ?case by simp
next
  case (Cons pf ps)
  obtain r1 w1 where s1: "run_stage dec llm pf inp w = (r1, w1)"
    by (cases "run_stage dec llm pf inp w")
  from run_stage_temperature [OF Cons.prems(1) s1]
  have t1: "\<forall>c \<in> set (llm_calls w1). call_temperature c = temperature llm" .
  show ?case
  proof (cases r1)
    case (Inl e)
    with Cons.prems(2) s1 have "w' = w1" by simp
    with t1 show ?thesis by simp
  next
    case (Inr v)
    show ?thesis
    proof (cases "if name (fst pf) = ''detector'' then update_with inp v else Inr inp")
      case (Inl e)
      with Cons.prems(2) s1 Inr have "w' = w1" by simp
      with t1 show ?thesis by simp
    next
      case inp': (Inr inp')
      with Cons.prems(2) s1 Inr
      have "analyse_loop dec llm ps inp' (setitem res (name (fst pf)) v) w1 = (r, w')"
        by simp
      from Cons.IH [OF t1 this] show ?thesis .
    qed
  qed
qed

lemma sequential_temperature:
  assumes "\<forall>c \<in> set (llm_calls w). call_temperature c = temperature llm"
      and "analyse_text_message_with_llm dec cl message llm w = (r, w')"
  shows "\<forall>c \<in> set (llm_calls w'). call_temperature c = temperature llm"
proof -
  obtain rm w1 where m: "get_openai_moderator_results cl message ''text-moderation-latest'' w = (rm, w1)"
    by (cases "get_openai_moderator_results cl message ''text-moderation-latest'' w")
  from moderator_results_log [OF m] assms(1)
  have t1: "\<forall>c \<in> set (llm_calls w1). call_temperature c = temperature llm" by simp
  show ?thesis
  proof (cases rm)
    case (Inl e)
    with assms(2) m have "w' = w1" by (simp add: analyse_text_message_with_llm_def)
    with t1 show ?thesis by simp
  next
    case (Inr mr)
    with assms(2) m have "analyse_loop dec llm text_analyser_prompts [(''message'', PyStr message)]
            [(''moderator'', PyDict mr)] w1 = (r, w')"
      by (simp add: analyse_text_message_with_llm_def)
    from analyse_loop_temperature [OF t1 this] show ?thesis .
  qed
qed

lemma Chain_invoke_log:
  assumes "Chain_invoke self inputs w = (r, w')"
  shows "llm_calls w' = llm_calls w"
  using assms
  by (auto simp: Chain_invoke_def OpenAIModerationChain_call_def moderations_create_def
           split: if_splits sum.splits list.splits)

lemma detection_temperature:
  assumes t: "\<forall>c \<in> set (llm_calls w). call_temperature c = temperature llm"
      and d: "detection dec llm inp w = (r, w')"
  shows "\<forall>c \<in> set (llm_calls w'). call_temperature c = temperature llm"
proof -
  obtain r0 w0 where c0: "chains_getitem dec llm ''detector'' inp w = (r0, w0)"
    by (cases "chains_getitem dec llm ''detector'' inp w")
  from chain_invoke_temperature [OF t c0 [unfolded chains_getitem_simps]]
  have t0: "\<forall>c \<in> set (llm_calls w0). call_temperature c = temperature llm" .
  show ?thesis
  proof (cases r0)
    case (Inl e)
    with d c0 have "w' = w0" by (simp add: detection_def detector_chain_def)
    with t0 show ?thesis by simp
  next
    case (Inr out)
    let ?x = "RunnableParallel
             [(''message'', Inr out),
              (''classification'', itemgetter ''classification'' out),
              (''explanation'', itemgetter ''explanation'' out)]"
    have dc: "detector_chain dec llm inp w = (?x, w0)"
      using c0 Inr by (simp add: detector_chain_def)
    show ?thesis
    proof (cases ?x)
      case (Inl e)
      with d dc have "w' = w0" by (simp add: detection_def)
      with t0 show ?thesis by simp
    next
      case x: (Inr x)
      with d dc have v: "validator_chain dec llm x w0 = (r, w')" by (simp add: detection_def)
      show ?thesis
      proof (cases x)
        case (PyDict xd)
        obtain v1 w1 where c1: "chains_getitem dec llm ''validator'' xd w0 = (v1, w1)"
          by (cases "chains_getitem dec llm ''validator'' xd w0")
        from chain_invoke_temperature [OF t0 c1 [unfolded chains_getitem_simps]]
        have "\<forall>c \<in> set (llm_calls w1). call_temperature c = temperature llm" .
        moreover from v PyDict c1 have "w' = w1" by (simp add: validator_chain_def)
        ultimately show ?thesis by simp
      qed (use v t0 in \<open>auto simp: validator_chain_def\<close>)
    qed
  qed
qed

lemma parallel_temperature:
  assumes t: "\<forall>c \<in> set (llm_calls w). call_temperature c = temperature llm"
      and run: "parallel_text_analyser_chains dec llm moderator inp w = (r, w')"
  shows "\<forall>c \<in> set (llm_calls w'). call_temperature c = temperature llm"
proof -
  obtain r1 w1 where d1: "detection dec llm inp w = (r1, w1)"
    by (cases "detection dec llm inp w")
  obtain r2 w2 where d2: "chains_getitem dec llm ''classifier'' inp w1 = (r2, w2)"
    by (cases "chains_getitem dec llm ''classifier'' inp w1")
  obtain r3 w3 where d3: "chains_getitem dec llm ''right-wing-rater'' inp w2 = (r3, w3)"
    by (cases "chains_getitem dec llm ''right-wing-rater'' inp w2")
  obtain r4 w4 where d4: "Chain_invoke moderator inp w3 = (r4, w4)"
    by (cases "Chain_invoke moderator inp w3")
  from run d1 d2 d3 d4 have w': "w' = w4" by (simp add: parallel_text_analyser_chains_def)
  note t1 = detection_temperature [OF t d1]
  note t2 = chain_invoke_temperature [OF t1 d2 [unfolded chains_getitem_simps]]
  note t3 = chain_invoke_temperature [OF t2 d3 [unfolded chains_getitem_simps]]
  from t3 Chain_invoke_log [OF d4] w' show ?thesis by simp
qed

text \<open>
  Claim C7, amended. Both analysers take the chat model as a parameter and make every
  model call of a run with that model, at that model's temperature; they neither set nor
  change it. The temperature is fixed at 0 in \<open>create_public_chat_gpt_chain\<close> only,
  which builds its own model: every call of a chain it returns is made at temperature 0.
\<close>

theorem calls_carry_the_given_models_temperature:
  "(\<forall>c \<in> set (llm_calls (snd (parallel_text_analyser_chains dec llm moderator inp world0))).
       call_temperature c = temperature llm)
   \<and> (\<forall>c \<in> set (llm_calls (snd (analyse_text_message_with_llm dec cl message llm world0))).
       call_temperature c = temperature llm)
   \<and> (\<forall>ch. create_public_chat_gpt_chain dec service prompt p model model_kwargs = Inr ch
         \<longrightarrow> (\<forall>c \<in> set (llm_calls (snd (ch inp world0))). call_temperature c = 0))"
proof -
  have t0: "\<forall>c \<in> set (llm_calls world0). call_temperature c = temperature (l :: BaseChatModel)" for l
    by (simp add: world0_def)
  have a: "\<forall>c \<in> set (llm_calls (snd (parallel_text_analyser_chains dec llm moderator inp world0))).
       call_temperature c = temperature llm"
    using parallel_temperature [OF t0 surjective_pairing] .
  have b: "\<forall>c \<in> set (llm_calls (snd (analyse_text_message_with_llm dec cl message llm world0))).
       call_temperature c = temperature llm"
    using sequential_temperature [OF t0 surjective_pairing] .
  have c: "\<forall>ch. create_public_chat_gpt_chain dec service prompt p model model_kwargs = Inr ch
         \<longrightarrow> (\<forall>c \<in> set (llm_calls (snd (ch inp world0))). call_temperature c = 0)"
  proof (intro allI impI)
    fix ch
    assume "create_public_chat_gpt_chain dec service prompt p model model_kwargs = Inr ch"
    then have ch: "ch = chain_invoke dec prompt
                          \<lparr>temperature = 0, respond = service model model_kwargs\<rparr> p"
      by (auto simp: create_public_chat_gpt_chain_def Let_def split: if_splits)
    show "\<forall>c \<in> set (llm_calls (snd (ch inp world0))). call_temperature c = 0"
      using chain_invoke_temperature
              [OF t0, of dec prompt "\<lparr>temperature = 0, respond = service model model_kwargs\<rparr>"
                 p inp "fst (ch inp world0)" "snd (ch inp world0)"]
      unfolding ch by simp
  qed
  from a b c show ?thesis by blast
qed

theorem calls_carry_the_given_models_temperature_witness:
  "call_temperature
     (hd (llm_calls (snd (parallel_text_analyser_chains ex_decoder ex_llm_warm
                            (new_OpenAIModerationChain ex_client) ex_input world0)))) = 7 / 10
   \<and> call_temperature
     (hd (llm_calls (snd (analyse_text_message_with_llm ex_decoder ex_client ex_message
                            ex_llm_warm world0)))) = 7 / 10
   \<and> call_temperature
     (hd (llm_calls (snd (projr (create_public_chat_gpt_chain ex_decoder (\<lambda>m kw. ex_answers)
                                   HATESPEECH_DETECTOR_PROMPT
                                   (JsonOutputParser HatespeechDetectionFormat)
                                   ''gpt-3.5-turbo-1106'' [])
                            ex_input world0)))) = 0"
proof -
  let ?par = "parallel_text_analyser_chains ex_decoder ex_llm_warm
                (new_OpenAIModerationChain ex_client) ex_input world0"
  let ?seq = "analyse_text_message_with_llm ex_decoder ex_client ex_message ex_llm_warm world0"
  let ?mk = "create_public_chat_gpt_chain ex_decoder (\<lambda>m kw. ex_answers)
               HATESPEECH_DETECTOR_PROMPT (JsonOutputParser HatespeechDetectionFormat)
               ''gpt-3.5-turbo-1106'' []"
  note t = calls_carry_the_given_models_temperature
             [of ex_decoder ex_llm_warm "new_OpenAIModerationChain ex_client" ex_input
                 ex_client ex_message "\<lambda>m kw. ex_answers" HATESPEECH_DETECTOR_PROMPT
                 "JsonOutputParser HatespeechDetectionFormat" "''gpt-3.5-turbo-1106''" "[]"]
  have "llm_calls (snd ?par) \<noteq> []" by (simp add: model_defs ex_defs)
  then have "hd (llm_calls (snd ?par)) \<in> set (llm_calls (snd ?par))" by simp
  with t have a: "call_temperature (hd (llm_calls (snd ?par))) = temperature ex_llm_warm"
    by blast
  have "llm_calls (snd ?seq) \<noteq> []" by (simp add: model_defs ex_defs)
  then have "hd (llm_calls (snd ?seq)) \<in> set (llm_calls (snd ?seq))" by simp
  with t have b: "call_temperature (hd (llm_calls (snd ?seq))) = temperature ex_llm_warm"
    by blast
  have mk: "?mk = Inr (projr ?mk)" by (simp add: create_public_chat_gpt_chain_def)
  have "llm_calls (snd (projr ?mk ex_input world0)) \<noteq> []"
    by (simp add: create_public_chat_gpt_chain_def model_defs ex_defs)
  then have "hd (llm_calls (snd (projr ?mk ex_input world0)))
               \<in> set (llm_calls (snd (projr ?mk ex_input world0)))" by simp
  with t mk have c: "call_temperature (hd (llm_calls (snd (projr ?mk ex_input world0)))) = 0"
    by blast
  have "temperature ex_llm_warm = 7 / 10" by (simp add: ex_llm_warm_def)
  with a b c show ?thesis by simp
qed

section \<open>A detector whose model call fails\<close>

text \<open>
  Claim C2, as the spec states it: when the detector's stage fails, the validator's slot
  of the report is a failure marker with the reason "upstream detector failed". On the
  example run with a model whose call for the detector fails, neither analyser returns a
  report: the exception of the call leaves the run.
\<close>

theorem failed_detector_leaves_no_report:
  "parallel_text_analyser_chains ex_decoder ex_llm_down (new_OpenAIModerationChain ex_client)
        ex_input world0
     = (Inl (ProviderError ''timeout''),
        \<lparr>llm_calls =
           [\<lparr>call_prompt = \<lparr>pv_name = ''detector'', pv_input = [(''message'', PyStr ''You suck!'')]\<rparr>,
             call_temperature = 0\<rparr>,
            \<lparr>call_prompt = \<lparr>pv_name = ''classifier'', pv_input = [(''message'', PyStr ''You suck!'')]\<rparr>,
             call_temperature = 0\<rparr>,
            \<lparr>call_prompt = \<lparr>pv_name = ''right-wing-rater'', pv_input = [(''message'', PyStr ''You suck!'')]\<rparr>,
             call_temperature = 0\<rparr>],
         moderation_calls = [(PyStr ''You suck!'', ''text-moderation-latest'')],
         warnings = []\<rparr>)
   \<and> fst (analyse_text_message_with_llm ex_decoder ex_client ex_message ex_llm_down world0)
     = Inl (ProviderError ''timeout'')"
  by (simp add: model_defs ex_defs)

lemma detector_call_fails:
  assumes "respond llm 0 \<lparr>pv_name = ''detector'', pv_input = [(''message'', PyStr message)]\<rparr>
             = Inl (ProviderError reason)"
      and "llm_calls w = []"
  shows "chain_invoke dec HATESPEECH_DETECTOR_PROMPT llm p [(''message'', PyStr message)] w
           = (Inl (ProviderError reason),
              w\<lparr>llm_calls :=
                   [\<lparr>call_prompt = \<lparr>pv_name = ''detector'',
                                    pv_input = [(''message'', PyStr message)]\<rparr>,
                     call_temperature = temperature llm\<rparr>]\<rparr>)"
  using assms
  by (simp add: chain_invoke_def invoke_prompt_def llm_invoke_def attempts_def
        HATESPEECH_DETECTOR_PROMPT_def)

text \<open>
  Claim C2, amended. When the model call of the detector's stage raises, the run raises
  that exception and returns no report, so there is no validator slot and no failure
  marker; and no call to the model for the validator's prompt is made. This holds for the
  parallel runnable, where the other branches still run, and for the sequential
  analyser, where the exception is the run's once the moderation call has returned.
\<close>

theorem failed_detector_aborts_the_run:
  assumes down: "respond llm 0 \<lparr>pv_name = ''detector'',
                                 pv_input = [(''message'', PyStr message)]\<rparr>
                   = Inl (ProviderError reason)"
  shows "fst (parallel_text_analyser_chains dec llm moderator [(''message'', PyStr message)] world0)
           = Inl (ProviderError reason)
       \<and> (\<forall>c \<in> set (llm_calls (snd (parallel_text_analyser_chains dec llm moderator
                                         [(''message'', PyStr message)] world0))).
             pv_name (call_prompt c) \<noteq> ''validator'')
       \<and> (\<forall>res. fst (analyse_text_message_with_llm dec cl message llm world0) \<noteq> Inr res)
       \<and> (\<forall>m. fst (get_openai_moderator_results cl message ''text-moderation-latest'' world0)
                 = Inr m
             \<longrightarrow> fst (analyse_text_message_with_llm dec cl message llm world0)
                 = Inl (ProviderError reason))
       \<and> (\<forall>c \<in> set (llm_calls (snd (analyse_text_message_with_llm dec cl message llm world0))).
             pv_name (call_prompt c) \<noteq> ''validator'')"
proof -
  let ?inp = "[(''message'', PyStr message)]"
  let ?call = "\<lparr>call_prompt = \<lparr>pv_name = ''detector'', pv_input = ?inp\<rparr>,
                call_temperature = temperature llm\<rparr>"
  have e0: "llm_calls world0 = []" by (simp add: world0_def)
  \<comment> \<open>the parallel runnable\<close>
  let ?w1 = "world0\<lparr>llm_calls := [?call]\<rparr>"
  have d1: "detection dec llm ?inp world0 = (Inl (ProviderError reason), ?w1)"
    by (simp add: detection_def detector_chain_def chains_getitem_simps
          detector_call_fails [OF down e0])
  obtain r2 w2 where d2: "chains_getitem dec llm ''classifier'' ?inp ?w1 = (r2, w2)"
    by (cases "chains_getitem dec llm ''classifier'' ?inp ?w1")
  obtain r3 w3 where d3: "chains_getitem dec llm ''right-wing-rater'' ?inp w2 = (r3, w3)"
    by (cases "chains_getitem dec llm ''right-wing-rater'' ?inp w2")
  obtain r4 w4 where d4: "Chain_invoke moderator ?inp w3 = (r4, w4)"
    by (cases "Chain_invoke moderator ?inp w3")
  have par: "parallel_text_analyser_chains dec llm moderator ?inp world0
               = (Inl (ProviderError reason), w4)"
    using d1 d2 d3 d4 by (simp add: parallel_text_analyser_chains_def RunnableParallel_def)
  from chain_invoke_log [OF d2 [unfolded chains_getitem_simps]] obtain n2 where
    n2: "llm_calls w2 = [?call] @ n2"
        "\<forall>c \<in> set n2. c = \<lparr>call_prompt = \<lparr>pv_name = name HATESPEECH_CLASSIFICATION_PROMPT,
                                             pv_input = ?inp\<rparr>,
                              call_temperature = temperature llm\<rparr>"
    by auto
  from chain_invoke_log [OF d3 [unfolded chains_getitem_simps]] obtain n3 where
    n3: "llm_calls w3 = llm_calls w2 @ n3"
        "\<forall>c \<in> set n3. c = \<lparr>call_prompt = \<lparr>pv_name = name RIGHT_WING_RATING_PROMPT,
                                             pv_input = ?inp\<rparr>,
                              call_temperature = temperature llm\<rparr>"
    by auto
  from n2(2) have m2: "\<forall>c \<in> set n2. pv_name (call_prompt c) \<noteq> ''validator''"
    by (fastforce simp: HATESPEECH_CLASSIFICATION_PROMPT_def)
  from n3(2) have m3: "\<forall>c \<in> set n3. pv_name (call_prompt c) \<noteq> ''validator''"
    by (fastforce simp: RIGHT_WING_RATING_PROMPT_def)
  have "llm_calls w4 = [?call] @ n2 @ n3"
    using Chain_invoke_log [OF d4] n2(1) n3(1) by simp
  with m2 m3 have pv: "\<forall>c \<in> set (llm_calls w4). pv_name (call_prompt c) \<noteq> ''validator''"
    by auto
  \<comment> \<open>the sequential analyser\<close>
  obtain rm wm where m: "get_openai_moderator_results cl message ''text-moderation-latest'' world0
                           = (rm, wm)"
    by (cases "get_openai_moderator_results cl message ''text-moderation-latest'' world0")
  from moderator_results_log [OF m] e0 have em: "llm_calls wm = []" by simp
  have seq: "(\<forall>res. fst (analyse_text_message_with_llm dec cl message llm world0) \<noteq> Inr res)
       \<and> (\<forall>m. rm = Inr m
             \<longrightarrow> fst (analyse_text_message_with_llm dec cl message llm world0)
                 = Inl (ProviderError reason))
       \<and> (\<forall>c \<in> set (llm_calls (snd (analyse_text_message_with_llm dec cl message llm world0))).
             pv_name (call_prompt c) \<noteq> ''validator'')"
  proof (cases rm)
    case (Inl e)
    with m em show ?thesis by (simp add: analyse_text_message_with_llm_def)
  next
    case (Inr mr)
    have "run_stage dec llm (HATESPEECH_DETECTOR_PROMPT, HatespeechDetectionFormat) ?inp wm
            = (Inl (ProviderError reason), wm\<lparr>llm_calls := [?call]\<rparr>)"
      by (simp add: run_stage_def detector_call_fails [OF down em])
    with m Inr show ?thesis
      by (simp add: analyse_text_message_with_llm_def text_analyser_prompts_def)
  qed
  from par pv seq m show ?thesis by simp
qed

theorem failed_detector_aborts_the_run_witness:
  "fst (parallel_text_analyser_chains ex_decoder ex_llm_down (new_OpenAIModerationChain ex_client)
          [(''message'', PyStr ex_message)] world0) = Inl (ProviderError ''timeout'')
   \<and> fst (analyse_text_message_with_llm ex_decoder ex_client ex_message ex_llm_down world0)
       = Inl (ProviderError ''timeout'')"
proof -
  have down: "respond ex_llm_down 0 \<lparr>pv_name = ''detector'',
                                     pv_input = [(''message'', PyStr ex_message)]\<rparr>
                = Inl (ProviderError ''timeout'')"
    by (simp add: ex_llm_down_def)
  note f = failed_detector_aborts_the_run
             [OF down, of ex_decoder "new_OpenAIModerationChain ex_client" ex_client]
  have "fst (get_openai_moderator_results ex_client ex_message ''text-moderation-latest'' world0)
          = Inr (model_dump ex_moderation)"
    by (simp add: get_openai_moderator_results_def moderations_create_def ex_client_def)
  with f show ?thesis by blast
qed

end
